theory Spec2Isabelle
  imports Main "HOL-Library.Sublist"
begin

section \<open>Levels and the severity translator\<close>

text \<open>
  \<^verbatim>\<open>slog.Level\<close> is Go's \<^verbatim>\<open>int\<close>. The handlers only compare levels with each other and
  with the four named constants (and the constants \<^verbatim>\<open>LevelDebug-4\<close>, \<^verbatim>\<open>LevelDebug-8\<close>, which
  the compiler folds); no arithmetic is done on a run-time level, so nothing can wrap and a
  level is modelled as a mathematical integer.
\<close>

type_synonym level = int

definition LevelDebug :: level where "LevelDebug = -4"
definition LevelInfo :: level where "LevelInfo = 0"
definition LevelWarn :: level where "LevelWarn = 4"
definition LevelError :: level where "LevelError = 8"

text \<open>\<^verbatim>\<open>DefaultSentinelOneHECLevelTranslator\<close> (handlers/sentinelone.go).\<close>

definition DefaultSentinelOneHECLevelTranslator :: "level \<Rightarrow> string" where
  "DefaultSentinelOneHECLevelTranslator l =
     (if l > LevelError then ''critical''
      else if l > LevelWarn then ''error''
      else if l > LevelInfo then ''warning''
      else if l > LevelDebug then ''info''
      else if l > LevelDebug - 4 then ''debug''
      else if l > LevelDebug - 8 then ''trace''
      else ''finest'')"

section \<open>Errors, attributes and records\<close>

text \<open>
  The error codes of errors.go that the forwarder uses, and the error values the handlers
  build. \<open>External\<close> is an error value made outside this package (by the standard
  library, a child handler or an error handler).
\<close>

datatype code = DataCompressionError | HTTPClientError | HTTPRequestError | HTTPResponseError

datatype val =
    StringValue string
  | Int64Value int
  | GroupValue "(string \<times> val) list"
  | SourceValue string string int
  | AnyValue string

datatype error =
    External string
  | Errorf string error
  | ErrorfValue string
  | XWrapf code string error
  | XNewf code string "(string \<times> val) list"
  | Joined "error list"

type_synonym attr = "string \<times> val"

text \<open>
  \<^verbatim>\<open>slog.Record\<close>: a struct passed by value. \<^verbatim>\<open>Clone\<close> returns a copy that shares no
  attribute storage with the original; HOL values have no storage to share, so the copy is
  the equal value.
\<close>

record slog_Record =
  rTime :: int
  rLevel :: level
  rMessage :: string
  rPC :: nat
  rAttrs :: "attr list"

definition NewRecord :: "int \<Rightarrow> level \<Rightarrow> string \<Rightarrow> nat \<Rightarrow> slog_Record" where
  "NewRecord t l msg pc = \<lparr>rTime = t, rLevel = l, rMessage = msg, rPC = pc, rAttrs = []\<rparr>"

definition AddAttrs :: "slog_Record \<Rightarrow> attr list \<Rightarrow> slog_Record" where
  "AddAttrs r as = r\<lparr>rAttrs := rAttrs r @ as\<rparr>"

definition Clone :: "slog_Record \<Rightarrow> slog_Record" where
  "Clone r = r"

section \<open>The store: level variables, shared buffers, handler objects\<close>

text \<open>
  Handlers are reached through pointers, and they share \<^verbatim>\<open>*slog.LevelVar\<close> and
  \<^verbatim>\<open>*sentinelOneHECHandlerState\<close> objects by pointer. The store keeps each kind of object
  in a list; a pointer is an index, and allocation appends, so a new object never has the
  address of an old one. \<open>Trace\<close> is the sequence of effects seen outside the handlers:
  calls of a configured error handler, delivery attempts (calls of \<^verbatim>\<open>send\<close>), the
  goroutines started with \<^verbatim>\<open>go\<close>, each with the effects of its own run, and the records
  given to a wrapped handler for output.
\<close>

type_synonym addr = nat

text \<open>
  The console and file sinks wrap a handler of the standard library (or of tint), which is
  opaque here: it is identified by the extension calls that built it.
\<close>

datatype slog_Handler =
    BaseHandler
  | HandlerWithAttrs slog_Handler "attr list"
  | HandlerWithGroup slog_Handler string

datatype event =
    ErrorHandlerCall error "slog_Record option"
  | Send string
  | Go "event list"
  | Output slog_Handler slog_Record

type_synonym ErrorHandlerFn = "error \<Rightarrow> slog_Record option \<Rightarrow> error option"

record SentinelOneHECHandlerOptions =
  S1_BufferSize :: int
  S1_CallerKey :: string
  S1_DisableAsync :: bool
  S1_DSCategory :: string
  S1_DSName :: string
  S1_DSVendor :: string
  S1_ErrorHandler :: "ErrorHandlerFn option"
  S1_Host :: string
  S1_IncludeCaller :: bool
  S1_Level :: addr
  S1_LevelTranslator :: "(level \<Rightarrow> string) option"
  S1_MaxLevel :: "addr option"
  S1_Scope :: string
  S1_Source :: string

record SentinelOneHECHandler =
  S1_attrs :: "attr list"
  S1_authToken :: string
  S1_client :: addr
  S1_groups :: "string list"
  S1_ingestionURL :: string
  S1_options :: SentinelOneHECHandlerOptions
  S1_state :: addr

record ConsoleHandlerOptions =
  Console_ErrorHandler :: "ErrorHandlerFn option"
  Console_IncludeCaller :: bool
  Console_Level :: addr
  Console_MaxLevel :: "addr option"
  Console_Stderr :: bool

record ConsoleHandler =
  Console_handler :: slog_Handler
  Console_options :: ConsoleHandlerOptions

record FileHandlerOptions =
  File_BufferSize :: int
  File_ErrorHandler :: "ErrorHandlerFn option"
  File_IncludeCaller :: bool
  File_Level :: addr
  File_MaxLevel :: "addr option"

record FileHandler =
  File_bufferedWriter :: "addr option"
  File_fileWriter :: addr
  File_handler :: slog_Handler
  File_options :: FileHandlerOptions

record FanoutHandlerOptions =
  Handlers :: "addr list"

datatype handler =
    S1HEC SentinelOneHECHandler
  | Console ConsoleHandler
  | File FileHandler
  | Discard
  | SlogDiscard
  | Fanout FanoutHandlerOptions

record world =
  LevelVars :: "level list"
  Buffers :: "string list"
  Heap :: "handler list"
  Trace :: "event list"

definition LevelVar_Level :: "world \<Rightarrow> addr \<Rightarrow> level" where
  "LevelVar_Level w p = LevelVars w ! p"

definition LevelVar_Set :: "addr \<Rightarrow> level \<Rightarrow> world \<Rightarrow> world" where
  "LevelVar_Set p l w = w\<lparr>LevelVars := (LevelVars w)[p := l]\<rparr>"

definition alloc :: "handler \<Rightarrow> world \<Rightarrow> addr \<times> world" where
  "alloc obj w = (length (Heap w), w\<lparr>Heap := Heap w @ [obj]\<rparr>)"

definition emit :: "event list \<Rightarrow> world \<Rightarrow> world" where
  "emit evs w = w\<lparr>Trace := Trace w @ evs\<rparr>"

section \<open>Enabled of the leaf sinks\<close>

text \<open>
  \<^verbatim>\<open>SentinelOneHECHandler.Enabled\<close>, \<^verbatim>\<open>FileHandler.Enabled\<close> and
  \<^verbatim>\<open>ConsoleHandler.Enabled\<close> have the same body. With a maximum level configured, the
  second comparison is against \<^verbatim>\<open>handlerLevel\<close> again: the maximum level variable is
  tested for nil and never read.
\<close>

definition SentinelOneHECHandler_Enabled :: "world \<Rightarrow> SentinelOneHECHandler \<Rightarrow> level \<Rightarrow> bool" where
  "SentinelOneHECHandler_Enabled w h level =
     (let handlerLevel = LevelVar_Level w (S1_Level (S1_options h)) in
      if S1_MaxLevel (S1_options h) = None then level \<ge> handlerLevel
      else level \<ge> handlerLevel \<and> level \<le> handlerLevel)"

definition FileHandler_Enabled :: "world \<Rightarrow> FileHandler \<Rightarrow> level \<Rightarrow> bool" where
  "FileHandler_Enabled w h level =
     (let handlerLevel = LevelVar_Level w (File_Level (File_options h)) in
      if File_MaxLevel (File_options h) = None then level \<ge> handlerLevel
      else level \<ge> handlerLevel \<and> level \<le> handlerLevel)"

definition ConsoleHandler_Enabled :: "world \<Rightarrow> ConsoleHandler \<Rightarrow> level \<Rightarrow> bool" where
  "ConsoleHandler_Enabled w h level =
     (let handlerLevel = LevelVar_Level w (Console_Level (Console_options h)) in
      if Console_MaxLevel (Console_options h) = None then level \<ge> handlerLevel
      else level \<ge> handlerLevel \<and> level \<le> handlerLevel)"

text \<open>\<^verbatim>\<open>DiscardHandler.Enabled\<close>, and \<^verbatim>\<open>Enabled\<close> of \<^verbatim>\<open>slog.DiscardHandler\<close>.\<close>

definition DiscardHandler_Enabled :: "level \<Rightarrow> bool" where
  "DiscardHandler_Enabled level = False"

section \<open>The batching forwarder\<close>

text \<open>
  What the forwarder calls outside this repository is a parameter: the JSON handler of the
  standard library that formats one record (under the handler's attributes and groups, with
  its \<^verbatim>\<open>ReplaceAttr\<close>), the frame lookup for the caller, the compression and the HTTP round
  trip of one payload (\<open>deliver\<close>, which tells how far \<^verbatim>\<open>send\<close> gets), and the wrapped
  handler of the console and file sinks.
\<close>

datatype delivery =
    GzipWriteError error
  | GzipCloseError error
  | NewRequestError error
  | ClientDoError error
  | Response int string string

record env =
  JSONHandler_Handle :: "attr list \<Rightarrow> string list \<Rightarrow> slog_Record \<Rightarrow> error + string"
  CallersFrames :: "nat \<Rightarrow> string \<times> string \<times> int"
  deliver :: "SentinelOneHECHandler \<Rightarrow> string \<Rightarrow> delivery"
  slog_Handle :: "slog_Handler \<Rightarrow> slog_Record \<Rightarrow> error option"

text \<open>
  \<^verbatim>\<open>handleError\<close>: the result, and the call of the error handler when one is configured.
  An error handler is taken to return (an error or nil); one that panics is not modelled.
\<close>

definition handleError ::
  "SentinelOneHECHandler \<Rightarrow> error \<Rightarrow> slog_Record option \<Rightarrow> error option \<times> event list" where
  "handleError h err r =
     (case S1_ErrorHandler (S1_options h) of
        None \<Rightarrow> (Some err, [])
      | Some f \<Rightarrow> (f err r, [ErrorHandlerCall err r]))"

text \<open>
  \<^verbatim>\<open>send\<close>: one delivery attempt. The result is the returned error and the effects of the
  attempt, the first of which is the attempt itself.
\<close>

definition send ::
  "env \<Rightarrow> SentinelOneHECHandler \<Rightarrow> slog_Record option \<Rightarrow> string \<Rightarrow> error option \<times> event list" where
  "send e h r payload =
     (let (res, evs) =
        (case deliver e h payload of
           GzipWriteError err \<Rightarrow>
             handleError h (XWrapf DataCompressionError ''failed to compress payload'' err) r
         | GzipCloseError err \<Rightarrow>
             handleError h (XWrapf DataCompressionError ''failed to close gzip writer'' err) r
         | NewRequestError err \<Rightarrow>
             handleError h (XWrapf HTTPRequestError ''failed to create HTTP request'' err) r
         | ClientDoError err \<Rightarrow>
             handleError h (XWrapf HTTPClientError ''failed to execute HTTP request'' err) r
         | Response StatusCode Status body \<Rightarrow>
             if StatusCode \<ge> 400 then
               handleError h (XNewf HTTPResponseError ''log endpoint returned non-OK status''
                 [(''status_code'', Int64Value StatusCode), (''status'', StringValue Status),
                  (''body'', StringValue body)]) r
             else (None, []))
      in (res, Send payload # evs))"

text \<open>
  \<^verbatim>\<open>bytes.Buffer.Write\<close> appends and, as documented, always returns a nil error (it panics
  when the buffer cannot grow).
\<close>

definition Buffer_Write :: "string \<Rightarrow> string \<Rightarrow> string \<times> error option" where
  "Buffer_Write buf p = (buf @ p, None)"

text \<open>
  \<^verbatim>\<open>SentinelOneHECHandler.Handle\<close>, in two parts. The first is the record built for the
  collector: the attributes of the incoming record, the message, the translated severity,
  the caller when asked for, and the data source, all under the group \<open>event\<close>, then host,
  source and source type.
\<close>

definition SentinelOneHECHandler_record :: "env \<Rightarrow> SentinelOneHECHandler \<Rightarrow> slog_Record \<Rightarrow> slog_Record" where
  "SentinelOneHECHandler_record e h r =
     (let opts = S1_options h;
          eventAttrs0 = rAttrs r @ [(''message'', StringValue (rMessage r))];
          severity = (case S1_LevelTranslator opts of
                        Some f \<Rightarrow> f (rLevel r)
                      | None \<Rightarrow> DefaultSentinelOneHECLevelTranslator (rLevel r));
          eventAttrs1 = eventAttrs0 @ [(''severity'', StringValue severity)];
          eventAttrs2 =
            (if S1_IncludeCaller opts \<and> rPC r \<noteq> 0 then
               (case CallersFrames e (rPC r) of
                  (fn, file, line) \<Rightarrow> eventAttrs1 @ [(S1_CallerKey opts, SourceValue fn file line)])
             else eventAttrs1);
          eventAttrs = eventAttrs2 @ [(''dataSource'', GroupValue
             [(''category'', StringValue (S1_DSCategory opts)),
              (''name'', StringValue (S1_DSName opts)),
              (''vendor'', StringValue (S1_DSVendor opts))])];
          record0 = NewRecord (rTime r) (rLevel r) (rMessage r) (rPC r);
          record1 = (if length eventAttrs > 0
                     then AddAttrs record0 [(''event'', GroupValue eventAttrs)] else record0)
      in AddAttrs record1
           [(''host'', StringValue (S1_Host opts)),
            (''source'', StringValue (S1_Source opts)),
            (''sourcetype'', StringValue ''gron'')])"

text \<open>
  The second part formats the record into a buffer of its own, appends the newline, and
  works on the shared buffer. \<^verbatim>\<open>types.Size\<close> is declared outside this repository and is
  taken as an integer; the sum of two buffer lengths is far below the range of Go's
  \<^verbatim>\<open>int\<close>, so it is the sum of the lengths. The goroutine started by \<^verbatim>\<open>go h.send\<close> only
  reads its own copy of the payload; its effects are recorded under \<open>Go\<close>, and what it
  returns is dropped.
\<close>

definition SentinelOneHECHandler_Handle ::
  "env \<Rightarrow> SentinelOneHECHandler \<Rightarrow> slog_Record \<Rightarrow> world \<Rightarrow> error option \<times> world" where
  "SentinelOneHECHandler_Handle e h r w =
     (let opts = S1_options h;
          record = SentinelOneHECHandler_record e h r
      in case JSONHandler_Handle e (S1_attrs h) (S1_groups h) record of
           Inl err \<Rightarrow>
             (case handleError h (Errorf
                ''failed to format log record to send to SentinelOne HTTP event collector'' err)
                (Some record) of
                (res, evs) \<Rightarrow> (res, emit evs w))
         | Inr line \<Rightarrow>
             (let recordBuf = line @ [CHR 0x0A];
                  buf = Buffers w ! S1_state h;
                  full = (length buf > 0 \<and> (S1_BufferSize opts = 0 \<or>
                            int (length buf + length recordBuf) > S1_BufferSize opts));
                  payload = (if full then Some buf else None);
                  buf1 = (if full then [] else buf)
              in case Buffer_Write buf1 recordBuf of
                   (buf2, werr) \<Rightarrow>
                     (let w1 = w\<lparr>Buffers := (Buffers w)[S1_state h := buf2]\<rparr>
                      in case werr of
                           Some err \<Rightarrow>
                             (case handleError h (Errorf
                                ''failed to write to buffer for SentinelOne HTTP event collector''
                                err) (Some record) of
                                (res, evs) \<Rightarrow> (res, emit evs w1))
                         | None \<Rightarrow>
                             (case payload of
                                None \<Rightarrow> (None, w1)
                              | Some p \<Rightarrow>
                                  if S1_DisableAsync opts then
                                    (case send e h (Some record) p of
                                       (res, evs) \<Rightarrow> (res, emit evs w1))
                                  else
                                    (None, emit [Go (snd (send e h (Some record) p))] w1)))))"

text \<open>\<^verbatim>\<open>SentinelOneHECHandler.Close\<close>.\<close>

definition SentinelOneHECHandler_Close ::
  "env \<Rightarrow> SentinelOneHECHandler \<Rightarrow> world \<Rightarrow> error option \<times> world" where
  "SentinelOneHECHandler_Close e h w =
     (let buf = Buffers w ! S1_state h in
      if length buf = 0 then (None, w)
      else
        (let payload = buf;
             w1 = w\<lparr>Buffers := (Buffers w)[S1_state h := []]\<rparr>
         in case send e h None payload of
              (res, evs) \<Rightarrow> (None, emit evs w1)))"

text \<open>
  \<^verbatim>\<open>clone\<close>, \<^verbatim>\<open>WithAttrs\<close>, \<^verbatim>\<open>WithGroup\<close> and \<^verbatim>\<open>GetLevelVar\<close> of the forwarder.
  \<^verbatim>\<open>slices.Clone\<close> and \<^verbatim>\<open>make\<close> with \<^verbatim>\<open>copy\<close> give the clone slices of its own, which a
  list value is. The clone is reachable by nobody before it is returned, so it enters the
  store with the fields it is returned with. The methods have pointer receivers: \<open>a\<close> is the
  receiver's address and \<open>h\<close> the struct found there.
\<close>

definition SentinelOneHECHandler_clone :: "SentinelOneHECHandler \<Rightarrow> SentinelOneHECHandler" where
  "SentinelOneHECHandler_clone h =
     \<lparr>S1_attrs = S1_attrs h, S1_authToken = S1_authToken h, S1_client = S1_client h,
      S1_groups = S1_groups h, S1_ingestionURL = S1_ingestionURL h,
      S1_options = S1_options h, S1_state = S1_state h\<rparr>"

definition SentinelOneHECHandler_WithAttrs ::
  "SentinelOneHECHandler \<Rightarrow> attr list \<Rightarrow> world \<Rightarrow> addr \<times> world" where
  "SentinelOneHECHandler_WithAttrs h attrs w =
     (let clone = SentinelOneHECHandler_clone h;
          newAttrs = S1_attrs h @ attrs
      in alloc (S1HEC (clone\<lparr>S1_attrs := newAttrs\<rparr>)) w)"

definition SentinelOneHECHandler_WithGroup ::
  "addr \<Rightarrow> SentinelOneHECHandler \<Rightarrow> string \<Rightarrow> world \<Rightarrow> addr \<times> world" where
  "SentinelOneHECHandler_WithGroup a h name w =
     (if length name = 0 then (a, w)
      else
        (let clone = SentinelOneHECHandler_clone h;
             newGroups = S1_groups h @ [name]
         in alloc (S1HEC (clone\<lparr>S1_groups := newGroups\<rparr>)) w))"

definition SentinelOneHECHandler_GetLevelVar :: "SentinelOneHECHandler \<Rightarrow> addr" where
  "SentinelOneHECHandler_GetLevelVar h = S1_Level (S1_options h)"

section \<open>The console, file and discard sinks\<close>

definition ConsoleHandler_Handle ::
  "env \<Rightarrow> ConsoleHandler \<Rightarrow> slog_Record \<Rightarrow> world \<Rightarrow> error option \<times> world" where
  "ConsoleHandler_Handle e h r w =
     (let w1 = emit [Output (Console_handler h) r] w in
      case slog_Handle e (Console_handler h) r of
        None \<Rightarrow> (None, w1)
      | Some err \<Rightarrow>
          (case Console_ErrorHandler (Console_options h) of
             None \<Rightarrow> (Some err, w1)
           | Some f \<Rightarrow> (f err (Some r), emit [ErrorHandlerCall err (Some r)] w1)))"

definition ConsoleHandler_clone :: "ConsoleHandler \<Rightarrow> ConsoleHandler" where
  "ConsoleHandler_clone h =
     \<lparr>Console_handler = Console_handler h, Console_options = Console_options h\<rparr>"

definition ConsoleHandler_WithAttrs :: "ConsoleHandler \<Rightarrow> attr list \<Rightarrow> world \<Rightarrow> addr \<times> world" where
  "ConsoleHandler_WithAttrs h attrs w =
     (let clone = ConsoleHandler_clone h
      in alloc (Console (clone\<lparr>Console_handler := HandlerWithAttrs (Console_handler h) attrs\<rparr>)) w)"

definition ConsoleHandler_WithGroup ::
  "addr \<Rightarrow> ConsoleHandler \<Rightarrow> string \<Rightarrow> world \<Rightarrow> addr \<times> world" where
  "ConsoleHandler_WithGroup a h name w =
     (if length name = 0 then (a, w)
      else
        (let clone = ConsoleHandler_clone h
         in alloc (Console (clone\<lparr>Console_handler := HandlerWithGroup (Console_handler h) name\<rparr>)) w))"

definition ConsoleHandler_GetLevelVar :: "ConsoleHandler \<Rightarrow> addr" where
  "ConsoleHandler_GetLevelVar h = Console_Level (Console_options h)"

definition FileHandler_Handle ::
  "env \<Rightarrow> FileHandler \<Rightarrow> slog_Record \<Rightarrow> world \<Rightarrow> error option \<times> world" where
  "FileHandler_Handle e h r w =
     (let w1 = emit [Output (File_handler h) r] w in
      case slog_Handle e (File_handler h) r of
        None \<Rightarrow> (None, w1)
      | Some err \<Rightarrow>
          (case File_ErrorHandler (File_options h) of
             None \<Rightarrow> (Some err, w1)
           | Some f \<Rightarrow> (f err (Some r), emit [ErrorHandlerCall err (Some r)] w1)))"

definition FileHandler_clone :: "FileHandler \<Rightarrow> FileHandler" where
  "FileHandler_clone h =
     \<lparr>File_bufferedWriter = File_bufferedWriter h, File_fileWriter = File_fileWriter h,
      File_handler = File_handler h, File_options = File_options h\<rparr>"

definition FileHandler_WithAttrs :: "FileHandler \<Rightarrow> attr list \<Rightarrow> world \<Rightarrow> addr \<times> world" where
  "FileHandler_WithAttrs h attrs w =
     (let clone = FileHandler_clone h
      in alloc (File (clone\<lparr>File_handler := HandlerWithAttrs (File_handler h) attrs\<rparr>)) w)"

definition FileHandler_WithGroup ::
  "addr \<Rightarrow> FileHandler \<Rightarrow> string \<Rightarrow> world \<Rightarrow> addr \<times> world" where
  "FileHandler_WithGroup a h name w =
     (if length name = 0 then (a, w)
      else
        (let clone = FileHandler_clone h
         in alloc (File (clone\<lparr>File_handler := HandlerWithGroup (File_handler h) name\<rparr>)) w))"

definition FileHandler_GetLevelVar :: "FileHandler \<Rightarrow> addr" where
  "FileHandler_GetLevelVar h = File_Level (File_options h)"

text \<open>
  \<^verbatim>\<open>DiscardHandler\<close> holds \<^verbatim>\<open>slog.DiscardHandler\<close>, a value of an empty struct type whose
  \<^verbatim>\<open>WithAttrs\<close> and \<^verbatim>\<open>WithGroup\<close> return a copy of itself; \<^verbatim>\<open>DiscardHandler.WithAttrs\<close> and
  \<^verbatim>\<open>DiscardHandler.WithGroup\<close> return what the held handler returns.
\<close>

definition DiscardHandler_Handle :: "slog_Record \<Rightarrow> world \<Rightarrow> error option \<times> world" where
  "DiscardHandler_Handle r w = (None, w)"

definition DiscardHandler_WithAttrs :: "attr list \<Rightarrow> world \<Rightarrow> addr \<times> world" where
  "DiscardHandler_WithAttrs attrs w = alloc SlogDiscard w"

definition DiscardHandler_WithGroup :: "string \<Rightarrow> world \<Rightarrow> addr \<times> world" where
  "DiscardHandler_WithGroup name w = alloc SlogDiscard w"

section \<open>The fan-out composer\<close>

text \<open>
  The children of a fan-out are \<^verbatim>\<open>slog.Handler\<close> interface values: the fan-out knows
  nothing of them but their methods. Each method of the fan-out therefore takes the
  children's method as a parameter, a function of the child's address; the state \<open>'s\<close> that
  a child's \<^verbatim>\<open>Handle\<close> may change is arbitrary. A call of a child's \<^verbatim>\<open>Handle\<close> either
  returns an error value (nil is \<open>None\<close>) or panics with a value, which is an error or
  anything else (never nil: \<^verbatim>\<open>panic(nil)\<close> panics with a \<^verbatim>\<open>*runtime.PanicNilError\<close>, an
  error, in every version of Go that has \<^verbatim>\<open>log/slog\<close>).
\<close>

datatype panic = PanicError error | PanicValue string

datatype outcome = Returns "error option" | Panics panic

text \<open>
  \<^verbatim>\<open>try\<close> (handlers/util.go), named \<open>try_fn\<close> here. \<open>recovered\<close> is what the named
  result \<^verbatim>\<open>err\<close> holds when \<^verbatim>\<open>try\<close> returns: what the callback returned, or what the
  deferred function made of the value of the panic.
\<close>

fun recovered :: "outcome \<Rightarrow> error option" where
  "recovered (Returns err) = err"
| "recovered (Panics (PanicError e)) = Some e"
| "recovered (Panics (PanicValue v)) = Some (ErrorfValue (''unexpected error: '' @ v))"

definition try_fn :: "('s \<Rightarrow> outcome \<times> 's) \<Rightarrow> 's \<Rightarrow> error option \<times> 's" where
  "try_fn callback s = (case callback s of (res, s') \<Rightarrow> (recovered res, s'))"

text \<open>
  \<^verbatim>\<open>errors.Join\<close> on a slice that holds no nil error, as \<^verbatim>\<open>errs\<close> in \<^verbatim>\<open>Handle\<close>: nil
  for the empty slice, and an error otherwise.
\<close>

definition errors_Join :: "error list \<Rightarrow> error option" where
  "errors_Join errs = (if errs = [] then None else Some (Joined errs))"

text \<open>\<^verbatim>\<open>FanoutHandler.Enabled\<close>: the loop over the children, left at the first enabled one.\<close>

fun FanoutHandler_Enabled_loop :: "(addr \<Rightarrow> level \<Rightarrow> bool) \<Rightarrow> addr list \<Rightarrow> level \<Rightarrow> bool" where
  "FanoutHandler_Enabled_loop enabled [] level = False"
| "FanoutHandler_Enabled_loop enabled (handler # rest) level =
     (if enabled handler level then True else FanoutHandler_Enabled_loop enabled rest level)"

definition FanoutHandler_Enabled ::
  "(addr \<Rightarrow> level \<Rightarrow> bool) \<Rightarrow> FanoutHandlerOptions \<Rightarrow> level \<Rightarrow> bool" where
  "FanoutHandler_Enabled enabled h level = FanoutHandler_Enabled_loop enabled (Handlers h) level"

text \<open>\<^verbatim>\<open>FanoutHandler.Handle\<close>: the loop with the errors collected so far, then the join.\<close>

fun FanoutHandler_Handle_loop ::
  "('s \<Rightarrow> addr \<Rightarrow> level \<Rightarrow> bool) \<Rightarrow> (addr \<Rightarrow> slog_Record \<Rightarrow> 's \<Rightarrow> outcome \<times> 's) \<Rightarrow>
   addr list \<Rightarrow> slog_Record \<Rightarrow> error list \<Rightarrow> 's \<Rightarrow> error list \<times> 's" where
  "FanoutHandler_Handle_loop enabled handle [] r errs s = (errs, s)"
| "FanoutHandler_Handle_loop enabled handle (handler # rest) r errs s =
     (if enabled s handler (rLevel r) then
        (case try_fn (handle handler (Clone r)) s of
           (None, s') \<Rightarrow> FanoutHandler_Handle_loop enabled handle rest r errs s'
         | (Some err, s') \<Rightarrow> FanoutHandler_Handle_loop enabled handle rest r (errs @ [err]) s')
      else FanoutHandler_Handle_loop enabled handle rest r errs s)"

definition FanoutHandler_Handle ::
  "('s \<Rightarrow> addr \<Rightarrow> level \<Rightarrow> bool) \<Rightarrow> (addr \<Rightarrow> slog_Record \<Rightarrow> 's \<Rightarrow> outcome \<times> 's) \<Rightarrow>
   FanoutHandlerOptions \<Rightarrow> slog_Record \<Rightarrow> 's \<Rightarrow> error option \<times> 's" where
  "FanoutHandler_Handle enabled handle h r s =
     (case FanoutHandler_Handle_loop enabled handle (Handlers h) r [] s of
        (errs, s') \<Rightarrow> (errors_Join errs, s'))"

text \<open>
  \<^verbatim>\<open>NewFanoutHandler\<close>, \<^verbatim>\<open>FanoutHandler.WithAttrs\<close> and \<^verbatim>\<open>FanoutHandler.WithGroup\<close>. The
  loop that fills \<^verbatim>\<open>handlers[i]\<close> is the same in both; \<open>x\<close> is the attribute list or the
  group name, \<open>withX\<close> the children's \<^verbatim>\<open>WithAttrs\<close> or \<^verbatim>\<open>WithGroup\<close>.
\<close>

definition NewFanoutHandler :: "FanoutHandlerOptions \<Rightarrow> world \<Rightarrow> addr \<times> world" where
  "NewFanoutHandler opts w = alloc (Fanout opts) w"

fun FanoutHandler_With_loop ::
  "(addr \<Rightarrow> 'x \<Rightarrow> world \<Rightarrow> addr \<times> world) \<Rightarrow> addr list \<Rightarrow> 'x \<Rightarrow> world \<Rightarrow> addr list \<times> world" where
  "FanoutHandler_With_loop withX [] x w = ([], w)"
| "FanoutHandler_With_loop withX (handler # rest) x w =
     (case withX handler x w of
        (handler', w1) \<Rightarrow>
          (case FanoutHandler_With_loop withX rest x w1 of
             (handlers, w2) \<Rightarrow> (handler' # handlers, w2)))"

definition FanoutHandler_WithAttrs ::
  "(addr \<Rightarrow> attr list \<Rightarrow> world \<Rightarrow> addr \<times> world) \<Rightarrow> FanoutHandlerOptions \<Rightarrow> attr list \<Rightarrow>
   world \<Rightarrow> addr \<times> world" where
  "FanoutHandler_WithAttrs withAttrs h attrs w =
     (case FanoutHandler_With_loop withAttrs (Handlers h) attrs w of
        (handlers, w1) \<Rightarrow> NewFanoutHandler \<lparr>Handlers = handlers\<rparr> w1)"

definition FanoutHandler_WithGroup ::
  "(addr \<Rightarrow> string \<Rightarrow> world \<Rightarrow> addr \<times> world) \<Rightarrow> addr \<Rightarrow> FanoutHandlerOptions \<Rightarrow> string \<Rightarrow>
   world \<Rightarrow> addr \<times> world" where
  "FanoutHandler_WithGroup withGroup a h name w =
     (if name = [] then (a, w)
      else
        (case FanoutHandler_With_loop withGroup (Handlers h) name w of
           (handlers, w1) \<Rightarrow> NewFanoutHandler \<lparr>Handlers = handlers\<rparr> w1))"

section \<open>Method calls through the handler interface\<close>

text \<open>
  A method call on a \<^verbatim>\<open>slog.Handler\<close> held in the store goes to the method of the object
  found at the address. The children of a fan-out are called through the parameter
  \<open>child\<close>, which is this dispatch again for a sink of this package and anything else for
  a handler of another package.
\<close>

definition Handler_Enabled ::
  "(world \<Rightarrow> addr \<Rightarrow> level \<Rightarrow> bool) \<Rightarrow> world \<Rightarrow> addr \<Rightarrow> level \<Rightarrow> bool" where
  "Handler_Enabled child w a level =
     (case Heap w ! a of
        S1HEC h \<Rightarrow> SentinelOneHECHandler_Enabled w h level
      | Console h \<Rightarrow> ConsoleHandler_Enabled w h level
      | File h \<Rightarrow> FileHandler_Enabled w h level
      | Discard \<Rightarrow> DiscardHandler_Enabled level
      | SlogDiscard \<Rightarrow> DiscardHandler_Enabled level
      | Fanout h \<Rightarrow> FanoutHandler_Enabled (child w) h level)"

definition Handler_Handle ::
  "(world \<Rightarrow> addr \<Rightarrow> level \<Rightarrow> bool) \<Rightarrow> (addr \<Rightarrow> slog_Record \<Rightarrow> world \<Rightarrow> outcome \<times> world) \<Rightarrow>
   env \<Rightarrow> addr \<Rightarrow> slog_Record \<Rightarrow> world \<Rightarrow> error option \<times> world" where
  "Handler_Handle childEnabled childHandle e a r w =
     (case Heap w ! a of
        S1HEC h \<Rightarrow> SentinelOneHECHandler_Handle e h r w
      | Console h \<Rightarrow> ConsoleHandler_Handle e h r w
      | File h \<Rightarrow> FileHandler_Handle e h r w
      | Discard \<Rightarrow> DiscardHandler_Handle r w
      | SlogDiscard \<Rightarrow> DiscardHandler_Handle r w
      | Fanout h \<Rightarrow> FanoutHandler_Handle childEnabled childHandle h r w)"

definition Handler_WithAttrs ::
  "(addr \<Rightarrow> attr list \<Rightarrow> world \<Rightarrow> addr \<times> world) \<Rightarrow> addr \<Rightarrow> attr list \<Rightarrow> world \<Rightarrow> addr \<times> world" where
  "Handler_WithAttrs child a attrs w =
     (case Heap w ! a of
        S1HEC h \<Rightarrow> SentinelOneHECHandler_WithAttrs h attrs w
      | Console h \<Rightarrow> ConsoleHandler_WithAttrs h attrs w
      | File h \<Rightarrow> FileHandler_WithAttrs h attrs w
      | Discard \<Rightarrow> DiscardHandler_WithAttrs attrs w
      | SlogDiscard \<Rightarrow> DiscardHandler_WithAttrs attrs w
      | Fanout h \<Rightarrow> FanoutHandler_WithAttrs child h attrs w)"

definition Handler_WithGroup ::
  "(addr \<Rightarrow> string \<Rightarrow> world \<Rightarrow> addr \<times> world) \<Rightarrow> addr \<Rightarrow> string \<Rightarrow> world \<Rightarrow> addr \<times> world" where
  "Handler_WithGroup child a name w =
     (case Heap w ! a of
        S1HEC h \<Rightarrow> SentinelOneHECHandler_WithGroup a h name w
      | Console h \<Rightarrow> ConsoleHandler_WithGroup a h name w
      | File h \<Rightarrow> FileHandler_WithGroup a h name w
      | Discard \<Rightarrow> DiscardHandler_WithGroup name w
      | SlogDiscard \<Rightarrow> DiscardHandler_WithGroup name w
      | Fanout h \<Rightarrow> FanoutHandler_WithGroup child a h name w)"

text \<open>
  \<^verbatim>\<open>GetLevelVar\<close> and \<^verbatim>\<open>GetMaxLevelVar\<close> of the \<^verbatim>\<open>xlog.LevelVarHandler\<close> interface,
  which the forwarder, the console sink and the file sink implement.
\<close>

definition Handler_GetLevelVar :: "world \<Rightarrow> addr \<Rightarrow> addr option" where
  "Handler_GetLevelVar w a =
     (case Heap w ! a of
        S1HEC h \<Rightarrow> Some (SentinelOneHECHandler_GetLevelVar h)
      | Console h \<Rightarrow> Some (ConsoleHandler_GetLevelVar h)
      | File h \<Rightarrow> Some (FileHandler_GetLevelVar h)
      | Discard \<Rightarrow> None
      | SlogDiscard \<Rightarrow> None
      | Fanout h \<Rightarrow> None)"

definition Handler_GetMaxLevelVar :: "world \<Rightarrow> addr \<Rightarrow> addr option" where
  "Handler_GetMaxLevelVar w a =
     (case Heap w ! a of
        S1HEC h \<Rightarrow> S1_MaxLevel (S1_options h)
      | Console h \<Rightarrow> Console_MaxLevel (Console_options h)
      | File h \<Rightarrow> File_MaxLevel (File_options h)
      | Discard \<Rightarrow> None
      | SlogDiscard \<Rightarrow> None
      | Fanout h \<Rightarrow> None)"

section \<open>A sequence of records\<close>

text \<open>
  \<open>Handle_each\<close> is a caller that gives the forwarder one record after the other.
  \<open>formatted\<close> is what the first half of \<^verbatim>\<open>Handle\<close> makes of a record when the JSON
  handler succeeds: the line and the newline, the bytes that go into the shared buffer.
\<close>

fun Handle_each :: "env \<Rightarrow> SentinelOneHECHandler \<Rightarrow> slog_Record list \<Rightarrow> world \<Rightarrow> world" where
  "Handle_each e h [] w = w"
| "Handle_each e h (r # rs) w = Handle_each e h rs (snd (SentinelOneHECHandler_Handle e h r w))"

definition formatted :: "env \<Rightarrow> SentinelOneHECHandler \<Rightarrow> slog_Record \<Rightarrow> string option" where
  "formatted e h r =
     (case JSONHandler_Handle e (S1_attrs h) (S1_groups h) (SentinelOneHECHandler_record e h r) of
        Inl err \<Rightarrow> None
      | Inr line \<Rightarrow> Some (line @ [CHR 0x0A]))"

section \<open>Reading the trace\<close>

text \<open>
  What a stretch of the trace shows: the payloads of the delivery attempts made by the
  caller itself (\<open>deliveries\<close>), the goroutines it started (\<open>goroutines\<close>), and the
  payloads of all delivery attempts, in a goroutine or not (\<open>payloads\<close>). \<open>since w w'\<close> is the
  stretch of the trace added between \<open>w\<close> and \<open>w'\<close>. \<open>delivery_failure\<close> is the error \<^verbatim>\<open>send\<close> builds for the
  step of a delivery that fails.
\<close>

fun deliveries :: "event list \<Rightarrow> string list" where
  "deliveries [] = []"
| "deliveries (Send p # evs) = p # deliveries evs"
| "deliveries (ErrorHandlerCall err r # evs) = deliveries evs"
| "deliveries (Go g # evs) = deliveries evs"
| "deliveries (Output sh r # evs) = deliveries evs"

fun goroutines :: "event list \<Rightarrow> event list list" where
  "goroutines [] = []"
| "goroutines (Go g # evs) = g # goroutines evs"
| "goroutines (Send p # evs) = goroutines evs"
| "goroutines (ErrorHandlerCall err r # evs) = goroutines evs"
| "goroutines (Output sh r # evs) = goroutines evs"

fun payloads :: "event list \<Rightarrow> string list" where
  "payloads [] = []"
| "payloads (Send p # evs) = p # payloads evs"
| "payloads (Go g # evs) = deliveries g @ payloads evs"
| "payloads (ErrorHandlerCall err r # evs) = payloads evs"
| "payloads (Output sh r # evs) = payloads evs"

definition since :: "world \<Rightarrow> world \<Rightarrow> event list" where
  "since w w' = drop (length (Trace w)) (Trace w')"

fun delivery_failure :: "delivery \<Rightarrow> error option" where
  "delivery_failure (GzipWriteError err) =
     Some (XWrapf DataCompressionError ''failed to compress payload'' err)"
| "delivery_failure (GzipCloseError err) =
     Some (XWrapf DataCompressionError ''failed to close gzip writer'' err)"
| "delivery_failure (NewRequestError err) =
     Some (XWrapf HTTPRequestError ''failed to create HTTP request'' err)"
| "delivery_failure (ClientDoError err) =
     Some (XWrapf HTTPClientError ''failed to execute HTTP request'' err)"
| "delivery_failure (Response StatusCode Status body) =
     (if StatusCode \<ge> 400 then
        Some (XNewf HTTPResponseError ''log endpoint returned non-OK status''
          [(''status_code'', Int64Value StatusCode), (''status'', StringValue Status),
                  (''body'', StringValue body)])
      else None)"

section \<open>What an extension may change\<close>

text \<open>
  \<open>extends w w'\<close>: the store \<open>w'\<close> is \<open>w\<close> with handler objects added at new addresses;
  every object of \<open>w\<close> is at its address with its fields, and level variables, buffers and
  trace are the same. \<open>extending f\<close> and \<open>keeps_sinks f\<close> are what the fan-out needs of the
  \<^verbatim>\<open>WithAttrs\<close> or \<^verbatim>\<open>WithGroup\<close>, and of the \<^verbatim>\<open>Handle\<close>, of its children: the first only
  adds objects, the second changes no handler object and no level variable.
\<close>

definition extends :: "world \<Rightarrow> world \<Rightarrow> bool" where
  "extends w w' \<longleftrightarrow>
     prefix (Heap w) (Heap w') \<and> LevelVars w' = LevelVars w \<and> Buffers w' = Buffers w
     \<and> Trace w' = Trace w"


definition keeps_sinks :: "(addr \<Rightarrow> slog_Record \<Rightarrow> world \<Rightarrow> outcome \<times> world) \<Rightarrow> bool" where
  "keeps_sinks f \<longleftrightarrow>
     (\<forall>c r w. Heap (snd (f c r w)) = Heap w \<and> LevelVars (snd (f c r w)) = LevelVars w)"

section \<open>Watching the children of a fan-out\<close>



section \<open>Example values\<close>

text \<open>
  Concrete values on which the theorems below are run: an environment that formats a
  record as its message and answers every delivery with \<open>d\<close>, a forwarder with threshold
  \<open>T\<close> whose level variable and buffer are the first of the store, a file sink, and a
  record.
\<close>

abbreviation example_env :: "delivery \<Rightarrow> env" where
  "example_env d \<equiv>
     \<lparr>JSONHandler_Handle = (\<lambda>as gs r. Inr (rMessage r)),
      CallersFrames = (\<lambda>pc. ([], [], 0)),
      deliver = (\<lambda>h p. d),
      slog_Handle = (\<lambda>sh r. None)\<rparr>"

abbreviation example_forwarder ::
  "int \<Rightarrow> bool \<Rightarrow> ErrorHandlerFn option \<Rightarrow> addr option \<Rightarrow> SentinelOneHECHandler" where
  "example_forwarder T sync eh mx \<equiv>
     \<lparr>S1_attrs = [], S1_authToken = ''Bearer token'', S1_client = 0, S1_groups = [],
      S1_ingestionURL = ''https://ingest.example/services/collector/event'',
      S1_options =
        \<lparr>S1_BufferSize = T, S1_CallerKey = ''caller'', S1_DisableAsync = sync,
         S1_DSCategory = ''applog'', S1_DSName = ''app'', S1_DSVendor = ''Unknown'',
         S1_ErrorHandler = eh, S1_Host = ''host'', S1_IncludeCaller = False, S1_Level = 0,
         S1_LevelTranslator = None, S1_MaxLevel = mx, S1_Scope = ''1234'',
         S1_Source = ''app''\<rparr>,
      S1_state = 0\<rparr>"

abbreviation example_file :: "addr \<Rightarrow> addr option \<Rightarrow> FileHandler" where
  "example_file lv mx \<equiv>
     \<lparr>File_bufferedWriter = None, File_fileWriter = 0, File_handler = BaseHandler,
      File_options = \<lparr>File_BufferSize = 0, File_ErrorHandler = None, File_IncludeCaller = False,
                      File_Level = lv, File_MaxLevel = mx\<rparr>\<rparr>"

abbreviation example_record :: "level \<Rightarrow> string \<Rightarrow> slog_Record" where
  "example_record l msg \<equiv> \<lparr>rTime = 0, rLevel = l, rMessage = msg, rPC = 0, rAttrs = []\<rparr>"

section \<open>The fixed band table of the severity mapping\<close>

text \<open>
  C4. The default severity translator is a total function of the level (it is a HOL
  function, with no failing branch in the source), and on every level it returns the band of
  the documented table, band edges included: above error \<open>critical\<close>; from above warn up to
  error \<open>error\<close>; from above info up to warn \<open>warning\<close>; from above debug up to info
  \<open>info\<close>; from above debug-4 up to debug \<open>debug\<close>; from above debug-8 up to debug-4
  \<open>trace\<close>; everything else \<open>finest\<close>. Each conjunct gives the band as an equivalence, so
  the seven bands are exactly the seven results.
\<close>

theorem DefaultSentinelOneHECLevelTranslator_bands:
  "(DefaultSentinelOneHECLevelTranslator l = ''critical'' \<longleftrightarrow> l > 8)
   \<and> (DefaultSentinelOneHECLevelTranslator l = ''error'' \<longleftrightarrow> 8 \<ge> l \<and> l > 4)
   \<and> (DefaultSentinelOneHECLevelTranslator l = ''warning'' \<longleftrightarrow> 4 \<ge> l \<and> l > 0)
   \<and> (DefaultSentinelOneHECLevelTranslator l = ''info'' \<longleftrightarrow> 0 \<ge> l \<and> l > -4)
   \<and> (DefaultSentinelOneHECLevelTranslator l = ''debug'' \<longleftrightarrow> -4 \<ge> l \<and> l > -8)
   \<and> (DefaultSentinelOneHECLevelTranslator l = ''trace'' \<longleftrightarrow> -8 \<ge> l \<and> l > -12)
   \<and> (DefaultSentinelOneHECLevelTranslator l = ''finest'' \<longleftrightarrow> -12 \<ge> l)"
  by (simp add: DefaultSentinelOneHECLevelTranslator_def LevelError_def LevelWarn_def
      LevelInfo_def LevelDebug_def)

section \<open>The level gate of the leaf sinks\<close>

lemma SentinelOneHECHandler_Enabled_no_max:
  "S1_MaxLevel (S1_options h) = None \<Longrightarrow>
   SentinelOneHECHandler_Enabled w h level \<longleftrightarrow> LevelVar_Level w (S1_Level (S1_options h)) \<le> level"
  by (simp add: SentinelOneHECHandler_Enabled_def Let_def)

lemma SentinelOneHECHandler_Enabled_max:
  "S1_MaxLevel (S1_options h) = Some m \<Longrightarrow>
   SentinelOneHECHandler_Enabled w h level \<longleftrightarrow> level = LevelVar_Level w (S1_Level (S1_options h))"
  by (auto simp: SentinelOneHECHandler_Enabled_def Let_def)

lemma FileHandler_Enabled_max:
  "File_MaxLevel (File_options h) = Some m \<Longrightarrow>
   FileHandler_Enabled w h level \<longleftrightarrow> level = LevelVar_Level w (File_Level (File_options h))"
  by (auto simp: FileHandler_Enabled_def Let_def)

lemma ConsoleHandler_Enabled_max:
  "Console_MaxLevel (Console_options h) = Some m \<Longrightarrow>
   ConsoleHandler_Enabled w h level \<longleftrightarrow> level = LevelVar_Level w (Console_Level (Console_options h))"
  by (auto simp: ConsoleHandler_Enabled_def Let_def)

text \<open>
  C1. The claim: on a leaf sink, \<open>Enabled(L)\<close> holds exactly when \<open>min \<le> L\<close> and the
  maximum is unset or \<open>L \<le> max\<close>. The code at minimum info, maximum error and level warn:
  the level is between the two thresholds, and each of the three leaf sinks answers false.
  With a maximum configured, the three sinks are enabled for the minimum level alone (the
  three lemmas above), whatever the maximum is.
\<close>

theorem Enabled_between_min_and_max_is_false:
  "(let w = \<lparr>LevelVars = [LevelInfo, LevelError], Buffers = [], Heap = [], Trace = []\<rparr>;
        s1 = h1\<lparr>S1_options := (S1_options h1)\<lparr>S1_Level := 0, S1_MaxLevel := Some 1\<rparr>\<rparr>;
        f = h2\<lparr>File_options := (File_options h2)\<lparr>File_Level := 0, File_MaxLevel := Some 1\<rparr>\<rparr>;
        c = h3\<lparr>Console_options :=
                 (Console_options h3)\<lparr>Console_Level := 0, Console_MaxLevel := Some 1\<rparr>\<rparr>
    in LevelVar_Level w 0 \<le> LevelWarn \<and> LevelWarn \<le> LevelVar_Level w 1
       \<and> \<not> SentinelOneHECHandler_Enabled w s1 LevelWarn
       \<and> \<not> FileHandler_Enabled w f LevelWarn
       \<and> \<not> ConsoleHandler_Enabled w c LevelWarn)"
  by (simp add: SentinelOneHECHandler_Enabled_def FileHandler_Enabled_def
      ConsoleHandler_Enabled_def LevelVar_Level_def LevelInfo_def LevelWarn_def LevelError_def)

section \<open>Delivery by the batching forwarder\<close>

lemma record_fields [simp]:
  "rMessage (SentinelOneHECHandler_record e h r) = rMessage r"
  "rLevel (SentinelOneHECHandler_record e h r) = rLevel r"
  "rTime (SentinelOneHECHandler_record e h r) = rTime r"
  "rPC (SentinelOneHECHandler_record e h r) = rPC r"
  by (simp_all add: SentinelOneHECHandler_record_def NewRecord_def AddAttrs_def Let_def
      split: prod.splits)

text \<open>\<^verbatim>\<open>send\<close> in one equation: the attempt, then the error handler on the failure.\<close>

lemma send_eq:
  "send e h r p =
     (case delivery_failure (deliver e h p) of
        None \<Rightarrow> (None, [Send p])
      | Some err \<Rightarrow> (fst (handleError h err r), Send p # snd (handleError h err r)))"
  by (cases "deliver e h p") (auto simp: send_def split: prod.splits)

lemma deliveries_send [simp]: "deliveries (snd (send e h r p)) = [p]"
  by (auto simp: send_eq handleError_def split: option.splits)

lemma goroutines_send [simp]: "goroutines (snd (send e h r p)) = []"
  by (auto simp: send_eq handleError_def split: option.splits)

lemma payloads_send [simp]: "payloads (snd (send e h r p)) = [p]"
  by (auto simp: send_eq handleError_def split: option.splits)

text \<open>\<^verbatim>\<open>Handle\<close> on a record that the JSON handler formats, and \<^verbatim>\<open>Close\<close>, in one equation each.\<close>

lemma Handle_formatted:
  assumes "JSONHandler_Handle e (S1_attrs h) (S1_groups h) (SentinelOneHECHandler_record e h r)
           = Inr line"
  shows "SentinelOneHECHandler_Handle e h r w =
     (let record = SentinelOneHECHandler_record e h r;
          recordBuf = line @ [CHR 0x0A];
          buf = Buffers w ! S1_state h
      in if buf \<noteq> [] \<and> (S1_BufferSize (S1_options h) = 0 \<or>
               int (length buf + length recordBuf) > S1_BufferSize (S1_options h))
         then
           (let w1 = w\<lparr>Buffers := (Buffers w)[S1_state h := recordBuf]\<rparr>
            in if S1_DisableAsync (S1_options h)
               then (fst (send e h (Some record) buf), emit (snd (send e h (Some record) buf)) w1)
               else (None, emit [Go (snd (send e h (Some record) buf))] w1))
         else (None, w\<lparr>Buffers := (Buffers w)[S1_state h := buf @ recordBuf]\<rparr>))"
  using assms
  by (simp add: SentinelOneHECHandler_Handle_def Let_def Buffer_Write_def split: prod.splits)

lemma Close_eq:
  "SentinelOneHECHandler_Close e h w =
     (None,
      if Buffers w ! S1_state h = [] then w
      else emit (snd (send e h None (Buffers w ! S1_state h)))
             (w\<lparr>Buffers := (Buffers w)[S1_state h := []]\<rparr>))"
  by (simp add: SentinelOneHECHandler_Close_def Let_def split: prod.splits)

text \<open>
  C3. \<^verbatim>\<open>Close\<close> on the forwarder: the caller itself makes one delivery attempt, with the
  content of the shared buffer as payload, when the buffer is not empty at the call, and
  none when it is empty; no goroutine is started; the buffer is empty afterwards; and with
  an empty buffer the whole state, trace included, is as before. (The lock is not part of
  this sequential model; the payload is the buffer as it was when \<^verbatim>\<open>Close\<close> read it.)
\<close>

theorem Close_final_delivery:
  assumes "S1_state h < length (Buffers w)"
  shows "case SentinelOneHECHandler_Close e h w of (res, w') \<Rightarrow>
     (let buf = Buffers w ! S1_state h in
        deliveries (since w w') = (if buf = [] then [] else [buf])
      \<and> goroutines (since w w') = []
      \<and> (if buf = [] then w' = w else Buffers w' = (Buffers w)[S1_state h := []])
      \<and> Buffers w' ! S1_state h = []
      \<and> Heap w' = Heap w \<and> LevelVars w' = LevelVars w)"
  using assms by (simp add: Close_eq Let_def emit_def since_def)

theorem Close_final_delivery_witness:
  "(let w = \<lparr>LevelVars = [0], Buffers = [''abc''], Heap = [], Trace = []\<rparr>;
        h = example_forwarder 100 False None None;
        e = example_env (Response 200 ''200 OK'' [])
    in S1_state h < length (Buffers w)
       \<and> SentinelOneHECHandler_Close e h w = (None, w\<lparr>Buffers := [[]], Trace := [Send ''abc'']\<rparr>)
       \<and> deliveries (since w (snd (SentinelOneHECHandler_Close e h w))) = [''abc''])"
  using Close_final_delivery [of "example_forwarder 100 False None None"
      "\<lparr>LevelVars = [0], Buffers = [''abc''], Heap = [], Trace = []\<rparr>"
      "example_env (Response 200 ''200 OK'' [])"]
  by (simp add: Close_eq send_eq emit_def since_def)

text \<open>
  C10. \<^verbatim>\<open>Close\<close> on the forwarder returns nil in every state and for every outcome of the
  delivery. What \<^verbatim>\<open>Close\<close> adds to the trace is nothing for an empty buffer, and otherwise
  the delivery attempt, followed, when the delivery fails (compression, request
  construction, transport, or a status of 400 or more) and an error handler is configured,
  by the call of the error handler with that failure and no record; what the error handler
  returns is dropped.
\<close>

theorem Close_returns_nil:
  "fst (SentinelOneHECHandler_Close e h w) = None
   \<and> since w (snd (SentinelOneHECHandler_Close e h w)) =
       (let buf = Buffers w ! S1_state h in
        if buf = [] then []
        else Send buf #
          (case delivery_failure (deliver e h buf) of
             None \<Rightarrow> []
           | Some err \<Rightarrow>
               (case S1_ErrorHandler (S1_options h) of
                  None \<Rightarrow> []
                | Some f \<Rightarrow> [ErrorHandlerCall err None])))"
  by (simp add: Close_eq Let_def send_eq handleError_def emit_def since_def split: option.splits)

text \<open>
  C9. \<^verbatim>\<open>Handle\<close> on the forwarder, for a record that is formatted, when a batch is cut
  (the shared buffer holds data, and batching is off or the new record would take it over
  the threshold). With asynchronous sending, \<^verbatim>\<open>Handle\<close> returns nil whatever the
  delivery does, and all it adds to the trace is the goroutine, in which the delivery is
  attempted and a failure goes to the error handler when one is configured. With
  asynchronous sending disabled, the caller makes the attempt itself and \<^verbatim>\<open>Handle\<close>
  returns nil for a delivery that succeeds, the failure when no error handler is
  configured, and otherwise what the error handler returns for the failure.
\<close>

theorem Handle_cut_delivery:
  assumes "JSONHandler_Handle e (S1_attrs h) (S1_groups h) (SentinelOneHECHandler_record e h r)
           = Inr line"
      and "Buffers w ! S1_state h \<noteq> []"
      and "S1_BufferSize (S1_options h) = 0 \<or>
           int (length (Buffers w ! S1_state h) + length line + 1) > S1_BufferSize (S1_options h)"
  shows "case SentinelOneHECHandler_Handle e h r w of (res, w') \<Rightarrow>
     (let record = SentinelOneHECHandler_record e h r;
          batch = Buffers w ! S1_state h;
          failure = delivery_failure (deliver e h batch);
          attempt = Send batch #
            (case failure of
               None \<Rightarrow> []
             | Some err \<Rightarrow>
                 (case S1_ErrorHandler (S1_options h) of
                    None \<Rightarrow> []
                  | Some f \<Rightarrow> [ErrorHandlerCall err (Some record)]))
      in if S1_DisableAsync (S1_options h) then
           res = (case failure of
                    None \<Rightarrow> None
                  | Some err \<Rightarrow>
                      (case S1_ErrorHandler (S1_options h) of
                         None \<Rightarrow> Some err
                       | Some f \<Rightarrow> f err (Some record)))
           \<and> since w w' = attempt
         else res = None \<and> since w w' = [Go attempt])"
  using assms
  by (auto simp: Handle_formatted Let_def send_eq handleError_def emit_def since_def
      split: option.splits)

theorem Handle_cut_delivery_witness:
  "(let w = \<lparr>LevelVars = [0], Buffers = [''abc''], Heap = [], Trace = []\<rparr>;
        eh = (\<lambda>err r. Some (External ''seen''));
        e = example_env (Response 503 ''503 Service Unavailable'' ''busy'');
        r = example_record 0 ''de'';
        failure = XNewf HTTPResponseError ''log endpoint returned non-OK status''
                    [(''status_code'', Int64Value 503),
                     (''status'', StringValue ''503 Service Unavailable''),
                     (''body'', StringValue ''busy'')]
    in fst (SentinelOneHECHandler_Handle e (example_forwarder 4 False (Some eh) None) r w) = None
       \<and> since w (snd (SentinelOneHECHandler_Handle e (example_forwarder 4 False (Some eh) None) r w))
           = [Go [Send ''abc'', ErrorHandlerCall failure (Some (SentinelOneHECHandler_record e
                (example_forwarder 4 False (Some eh) None) r))]]
       \<and> fst (SentinelOneHECHandler_Handle e (example_forwarder 4 True (Some eh) None) r w)
           = Some (External ''seen'')
       \<and> fst (SentinelOneHECHandler_Handle e (example_forwarder 4 True None None) r w)
           = Some failure)"
  using Handle_cut_delivery [of "example_env (Response 503 ''503 Service Unavailable'' ''busy'')"
      "example_forwarder 4 False (Some (\<lambda>err r. Some (External ''seen''))) None"
      "example_record 0 ''de''" "''de''"
      "\<lparr>LevelVars = [0], Buffers = [''abc''], Heap = [], Trace = []\<rparr>"]
  by (simp add: Handle_formatted send_eq handleError_def emit_def since_def Let_def)

section \<open>The fan-out composer: enablement and delivery to the children\<close>

lemma FanoutHandler_Enabled_loop_iff:
  "FanoutHandler_Enabled_loop enabled hs level \<longleftrightarrow> (\<exists>c \<in> set hs. enabled c level)"
  by (induction hs) auto

lemma Handler_Enabled_discard:
  "Heap w ! c = Discard \<or> Heap w ! c = SlogDiscard \<Longrightarrow> \<not> Handler_Enabled child w c level"
  by (auto simp: Handler_Enabled_def DiscardHandler_Enabled_def)

text \<open>
  C5. \<^verbatim>\<open>Enabled\<close> of a fan-out is true exactly when \<^verbatim>\<open>Enabled\<close> of at least one child is
  true, whatever the children are; so it is false with no children, and false when every
  child is a discard sink (or the discard handler of the standard library), whose
  \<^verbatim>\<open>Enabled\<close> is always false. The last part says the same of a fan-out found in the
  store and called through the interface.
\<close>

theorem FanoutHandler_Enabled_any_child:
  "(FanoutHandler_Enabled enabled h level \<longleftrightarrow> (\<exists>c \<in> set (Handlers h). enabled c level))
   \<and> (Handlers h = [] \<longrightarrow> \<not> FanoutHandler_Enabled enabled h level)
   \<and> (list_all (\<lambda>c. Heap w ! c = Discard \<or> Heap w ! c = SlogDiscard) (Handlers h)
        \<longrightarrow> \<not> FanoutHandler_Enabled (Handler_Enabled child w) h level)
   \<and> (Heap w ! a = Fanout h
        \<longrightarrow> Handler_Enabled child w a level = (\<exists>c \<in> set (Handlers h). child w c level))"
  by (auto simp: FanoutHandler_Enabled_def FanoutHandler_Enabled_loop_iff Handler_Enabled_def
      DiscardHandler_Enabled_def list_all_iff)

theorem FanoutHandler_Enabled_any_child_witness:
  "(let w = \<lparr>LevelVars = [LevelWarn], Buffers = [],
             Heap = [Discard, File (example_file 0 None), Fanout \<lparr>Handlers = [0, 1]\<rparr>,
                     Fanout \<lparr>Handlers = [0]\<rparr>, Fanout \<lparr>Handlers = []\<rparr>],
             Trace = []\<rparr>;
        leaf = Handler_Enabled (\<lambda>w c l. False)
    in Handler_Enabled leaf w 2 LevelError \<and> leaf w 1 LevelError
       \<and> \<not> Handler_Enabled leaf w 2 LevelInfo \<and> \<not> leaf w 1 LevelInfo
       \<and> \<not> Handler_Enabled leaf w 3 LevelError
       \<and> \<not> Handler_Enabled leaf w 4 LevelError)"
  using FanoutHandler_Enabled_any_child [of "Handler_Enabled (\<lambda>w c l. False)
        \<lparr>LevelVars = [LevelWarn], Buffers = [],
             Heap = [Discard, File (example_file 0 None), Fanout \<lparr>Handlers = [0, 1]\<rparr>,
                     Fanout \<lparr>Handlers = [0]\<rparr>, Fanout \<lparr>Handlers = []\<rparr>],
             Trace = []\<rparr>" "\<lparr>Handlers = [0, 1]\<rparr>" LevelError]
  by (simp add: Handler_Enabled_def FanoutHandler_Enabled_def FileHandler_Enabled_def
      DiscardHandler_Enabled_def LevelVar_Level_def LevelWarn_def LevelError_def LevelInfo_def)







section \<open>Batching by the forwarder\<close>

lemma formatted_nonempty: "formatted e h r = Some rec \<Longrightarrow> rec \<noteq> []"
  by (auto simp: formatted_def split: sum.splits)

lemma payloads_append: "payloads (a @ b) = payloads a @ payloads b"
  by (induction a rule: payloads.induct) simp_all

lemma Handle_step:
  assumes "formatted e h r = Some rec"
  shows "Buffers (snd (SentinelOneHECHandler_Handle e h r w)) =
           (Buffers w)[S1_state h :=
              (if Buffers w ! S1_state h \<noteq> [] \<and> (S1_BufferSize (S1_options h) = 0 \<or>
                   int (length (Buffers w ! S1_state h) + length rec) > S1_BufferSize (S1_options h))
               then rec else Buffers w ! S1_state h @ rec)]
         \<and> (\<exists>evs. Trace (snd (SentinelOneHECHandler_Handle e h r w)) = Trace w @ evs
              \<and> payloads evs =
                 (if Buffers w ! S1_state h \<noteq> [] \<and> (S1_BufferSize (S1_options h) = 0 \<or>
                       int (length (Buffers w ! S1_state h) + length rec)
                         > S1_BufferSize (S1_options h))
                  then [Buffers w ! S1_state h] else []))"
proof -
  obtain line where l: "JSONHandler_Handle e (S1_attrs h) (S1_groups h)
      (SentinelOneHECHandler_record e h r) = Inr line" and rec: "rec = line @ [CHR 0x0A]"
    using assms by (auto simp: formatted_def split: sum.splits)
  show ?thesis
    unfolding Handle_formatted [OF l] rec
    by (simp add: Let_def emit_def)
qed


lemma concat_nonempty: "g \<noteq> [] \<Longrightarrow> [] \<notin> set g \<Longrightarrow> concat g \<noteq> []"
  by (cases g) auto

lemma Handle_each_groups:
  assumes T: "S1_BufferSize (S1_options h) = T" "0 < T"
  shows "S1_state h < length (Buffers w) \<Longrightarrow> map (formatted e h) rs = map Some recs \<Longrightarrow>
     Buffers w ! S1_state h = concat g0 \<Longrightarrow> [] \<notin> set g0 \<Longrightarrow>
     (1 < length g0 \<longrightarrow> int (length (concat g0)) \<le> T) \<Longrightarrow>
     \<exists>gs fin evs. Trace (Handle_each e h rs w) = Trace w @ evs \<and> payloads evs = map concat gs
       \<and> length (Buffers (Handle_each e h rs w)) = length (Buffers w)
       \<and> Buffers (Handle_each e h rs w) ! S1_state h = concat fin
       \<and> concat gs @ fin = g0 @ recs
       \<and> (\<forall>g \<in> set gs. g \<noteq> [] \<and> [] \<notin> set g \<and> (1 < length g \<longrightarrow> int (length (concat g)) \<le> T))
       \<and> [] \<notin> set fin \<and> (1 < length fin \<longrightarrow> int (length (concat fin)) \<le> T)"
proof (induction rs arbitrary: w recs g0)
  case Nil
  then show ?case
    by (intro exI [of _ "[]"] exI [of _ g0]) simp
next
  case (Cons r rs)
  let ?p = "S1_state h"
  let ?buf = "Buffers w ! ?p"
  obtain rec recs' where recs: "recs = rec # recs'" and fr: "formatted e h r = Some rec"
    and frs: "map (formatted e h) rs = map Some recs'"
    using Cons.prems(2) by (cases recs) auto
  have rec_ne: "rec \<noteq> []" using fr by (rule formatted_nonempty)
  let ?cut = "?buf \<noteq> [] \<and> int (length ?buf + length rec) > T"
  let ?w1 = "snd (SentinelOneHECHandler_Handle e h r w)"
  from Handle_step [OF fr, of w] T obtain evs1 where
    b1: "Buffers ?w1 = (Buffers w)[?p := (if ?cut then rec else ?buf @ rec)]"
    and t1: "Trace ?w1 = Trace w @ evs1"
    and p1: "payloads evs1 = (if ?cut then [?buf] else [])"
    by auto
  have len1: "length (Buffers ?w1) = length (Buffers w)" using b1 by simp
  have v1: "?p < length (Buffers ?w1)" using len1 Cons.prems(1) by simp
  show ?case
  proof (cases ?cut)
    case True
    have buf1: "Buffers ?w1 ! ?p = concat [rec]" using b1 True Cons.prems(1) by simp
    have g0_ne: "g0 \<noteq> []" using True Cons.prems(3) by auto
    from Cons.IH [OF v1 frs buf1] rec_ne obtain gs fin evs where
      ih: "Trace (Handle_each e h rs ?w1) = Trace ?w1 @ evs" "payloads evs = map concat gs"
        "length (Buffers (Handle_each e h rs ?w1)) = length (Buffers ?w1)"
        "Buffers (Handle_each e h rs ?w1) ! ?p = concat fin"
        "concat gs @ fin = [rec] @ recs'"
        "\<forall>g \<in> set gs. g \<noteq> [] \<and> [] \<notin> set g \<and> (1 < length g \<longrightarrow> int (length (concat g)) \<le> T)"
        "[] \<notin> set fin" "1 < length fin \<longrightarrow> int (length (concat fin)) \<le> T"
      by auto
    show ?thesis
      apply (intro exI [of _ "g0 # gs"] exI [of _ fin] exI [of _ "evs1 @ evs"])
      using ih t1 p1 True len1 g0_ne Cons.prems(3,4,5) recs
      by (simp add: payloads_append)
  next
    case False
    have "Buffers ?w1 ! ?p = ?buf @ rec"
      using b1 False Cons.prems(1) by simp
    then have buf1: "Buffers ?w1 ! ?p = concat (g0 @ [rec])"
      using Cons.prems(3) by simp
    have ne: "[] \<notin> set (g0 @ [rec])" using Cons.prems(4) rec_ne by auto
    have sz: "1 < length (g0 @ [rec]) \<longrightarrow> int (length (concat (g0 @ [rec]))) \<le> T"
    proof
      assume "1 < length (g0 @ [rec])"
      then have "g0 \<noteq> []" by auto
      then have "?buf \<noteq> []" using Cons.prems(3,4) concat_nonempty by metis
      with False have "int (length ?buf + length rec) \<le> T" by simp
      then show "int (length (concat (g0 @ [rec]))) \<le> T" using Cons.prems(3) by simp
    qed
    from Cons.IH [OF v1 frs buf1 ne sz] obtain gs fin evs where
      ih: "Trace (Handle_each e h rs ?w1) = Trace ?w1 @ evs" "payloads evs = map concat gs"
        "length (Buffers (Handle_each e h rs ?w1)) = length (Buffers ?w1)"
        "Buffers (Handle_each e h rs ?w1) ! ?p = concat fin"
        "concat gs @ fin = (g0 @ [rec]) @ recs'"
        "\<forall>g \<in> set gs. g \<noteq> [] \<and> [] \<notin> set g \<and> (1 < length g \<longrightarrow> int (length (concat g)) \<le> T)"
        "[] \<notin> set fin" "1 < length fin \<longrightarrow> int (length (concat fin)) \<le> T"
      by auto
    show ?thesis
      apply (intro exI [of _ gs] exI [of _ fin] exI [of _ "evs1 @ evs"])
      using ih t1 p1 False len1 recs
      by (simp add: payloads_append)
  qed
qed


text \<open>
  C2. \<^verbatim>\<open>Handle\<close> on the forwarder with a threshold \<open>T > 0\<close>. First part, one call in any
  state, for a record whose formatted bytes are \<open>rec\<close>: the payloads handed to delivery
  (by the caller or in a goroutine) during the call are the content of the shared buffer
  when the buffer is not empty and its length plus the length of \<open>rec\<close> exceeds \<open>T\<close>, and
  none otherwise; after the call the buffer is \<open>rec\<close> in the first case and the old
  content followed by \<open>rec\<close> in the second. So a record longer than \<open>T\<close> that meets an
  empty buffer is appended whole and nothing is delivered yet. Second part, any sequence
  of formatted records from an empty buffer, followed by \<^verbatim>\<open>Close\<close>: the payloads
  delivered are a division of the sequence into consecutive non-empty groups, each payload
  the records of its group in order, so every record is delivered once and whole; a group
  of more than one record is at most \<open>T\<close> long; and the buffer ends empty.
\<close>

theorem Handle_batching:
  assumes T: "S1_BufferSize (S1_options h) = T" "0 < T"
    and p: "S1_state h < length (Buffers w)"
  shows
   "(formatted e h r = Some rec \<longrightarrow>
       (case SentinelOneHECHandler_Handle e h r w of (res, w') \<Rightarrow>
          (let buf = Buffers w ! S1_state h;
               cut = (buf \<noteq> [] \<and> int (length buf + length rec) > T)
           in payloads (since w w') = (if cut then [buf] else [])
              \<and> Buffers w' ! S1_state h = (if cut then rec else buf @ rec))))
    \<and> (Buffers w ! S1_state h = [] \<and> map (formatted e h) rs = map Some recs \<longrightarrow>
         (let w1 = Handle_each e h rs w; w2 = snd (SentinelOneHECHandler_Close e h w1)
          in \<exists>gs. concat gs = recs \<and> payloads (since w w2) = map concat gs
               \<and> (\<forall>g \<in> set gs. g \<noteq> [] \<and> (1 < length g \<longrightarrow> int (length (concat g)) \<le> T))
               \<and> Buffers w2 ! S1_state h = []))"
proof (intro conjI impI)
  assume fr: "formatted e h r = Some rec"
  from Handle_step [OF fr, of w] T p
  show "case SentinelOneHECHandler_Handle e h r w of (res, w') \<Rightarrow>
          (let buf = Buffers w ! S1_state h;
               cut = (buf \<noteq> [] \<and> int (length buf + length rec) > T)
           in payloads (since w w') = (if cut then [buf] else [])
              \<and> Buffers w' ! S1_state h = (if cut then rec else buf @ rec))"
    by (auto simp: since_def Let_def split: prod.splits)
next
  assume a: "Buffers w ! S1_state h = [] \<and> map (formatted e h) rs = map Some recs"
  let ?p = "S1_state h"
  let ?w1 = "Handle_each e h rs w"
  let ?w2 = "snd (SentinelOneHECHandler_Close e h ?w1)"
  from a have b0: "Buffers w ! ?p = concat []" and frs: "map (formatted e h) rs = map Some recs"
    by simp_all
  from Handle_each_groups [OF T p frs b0] obtain gs fin evs where
    g: "Trace ?w1 = Trace w @ evs" "payloads evs = map concat gs"
       "length (Buffers ?w1) = length (Buffers w)"
       "Buffers ?w1 ! ?p = concat fin"
       "concat gs @ fin = [] @ recs"
       "\<forall>g \<in> set gs. g \<noteq> [] \<and> [] \<notin> set g \<and> (1 < length g \<longrightarrow> int (length (concat g)) \<le> T)"
       "[] \<notin> set fin" "1 < length fin \<longrightarrow> int (length (concat fin)) \<le> T"
    by auto
  have v: "?p < length (Buffers ?w1)" using g(3) p by simp
  show "let w1 = ?w1; w2 = snd (SentinelOneHECHandler_Close e h w1)
        in \<exists>gs. concat gs = recs \<and> payloads (since w w2) = map concat gs
             \<and> (\<forall>g \<in> set gs. g \<noteq> [] \<and> (1 < length g \<longrightarrow> int (length (concat g)) \<le> T))
             \<and> Buffers w2 ! S1_state h = []"
  proof (cases "fin = []")
    case True
    then have "?w2 = ?w1" using g(4) by (simp add: Close_eq)
    with True g v show ?thesis
      unfolding Let_def
      by (intro exI [of _ gs]) (simp add: since_def)
  next
    case False
    then have ne: "concat fin \<noteq> []" using g(7) concat_nonempty by blast
    have ne': "Buffers ?w1 ! ?p \<noteq> []" using ne unfolding g(4) .
    have "?w2 = emit (snd (send e h None (Buffers ?w1 ! ?p)))
                      (?w1\<lparr>Buffers := (Buffers ?w1)[?p := []]\<rparr>)"
      using ne' by (simp add: Close_eq)
    then have w2: "?w2 = emit (snd (send e h None (concat fin)))
                      (?w1\<lparr>Buffers := (Buffers ?w1)[?p := []]\<rparr>)"
      unfolding g(4) .
    show ?thesis
      unfolding Let_def w2
      apply (intro exI [of _ "gs @ [fin]"])
      using g v False
      by (simp add: since_def emit_def payloads_append)
  qed
qed


text \<open>The example environment formats a record as its message.\<close>

lemma formatted_example [simp]:
  "formatted (example_env d) h r = Some (rMessage r @ [CHR 0x0A])"
  by (simp add: formatted_def)

lemma Handle_example:
  "SentinelOneHECHandler_Handle (example_env d) h r w =
     (let record = SentinelOneHECHandler_record (example_env d) h r;
          recordBuf = rMessage r @ [CHR 0x0A];
          buf = Buffers w ! S1_state h
      in if buf \<noteq> [] \<and> (S1_BufferSize (S1_options h) = 0 \<or>
               int (length buf + length recordBuf) > S1_BufferSize (S1_options h))
         then
           (let w1 = w\<lparr>Buffers := (Buffers w)[S1_state h := recordBuf]\<rparr>
            in if S1_DisableAsync (S1_options h)
               then (fst (send (example_env d) h (Some record) buf),
                     emit (snd (send (example_env d) h (Some record) buf)) w1)
               else (None, emit [Go (snd (send (example_env d) h (Some record) buf))] w1))
         else (None, w\<lparr>Buffers := (Buffers w)[S1_state h := buf @ recordBuf]\<rparr>))"
  by (rule Handle_formatted) simp

theorem Handle_batching_witness:
  "(let e = example_env (Response 200 ''200 OK'' []);
        h = example_forwarder 100 True None None;
        w = \<lparr>LevelVars = [0], Buffers = [[]], Heap = [], Trace = []\<rparr>;
        m = replicate 39 CHR ''a'';
        r = example_record 0 m;
        w2 = Handle_each e h [r, r] w;
        w3 = Handle_each e h [r, r, r] w;
        big = example_record 0 (replicate 120 CHR ''b'');
        w4 = Handle_each e h [big] w;
        w5 = Handle_each e h [big, r] w
    in S1_BufferSize (S1_options h) = 100 \<and> S1_state h < length (Buffers w)
       \<and> payloads (since w w2) = [] \<and> Buffers w2 ! 0 = m @ ''\<newline>'' @ m @ ''\<newline>''
       \<and> payloads (since w w3) = [m @ ''\<newline>'' @ m @ ''\<newline>''] \<and> Buffers w3 ! 0 = m @ ''\<newline>''
       \<and> payloads (since w w4) = [] \<and> Buffers w4 ! 0 = replicate 120 CHR ''b'' @ ''\<newline>''
       \<and> payloads (since w w5) = [replicate 120 CHR ''b'' @ ''\<newline>''] \<and> Buffers w5 ! 0 = m @ ''\<newline>''
       \<and> payloads (since w (snd (SentinelOneHECHandler_Close e h w4)))
           = [replicate 120 CHR ''b'' @ ''\<newline>''])"
  using Handle_batching [where h = "example_forwarder 100 True None None" and T = 100
      and w = "\<lparr>LevelVars = [0], Buffers = [[]], Heap = [], Trace = []\<rparr>"
      and e = "example_env (Response 200 ''200 OK'' [])"
      and r = "example_record 0 (replicate 120 CHR ''b'')"
      and rec = "replicate 120 CHR ''b'' @ ''\<newline>''"
      and rs = "[example_record 0 (replicate 120 CHR ''b'')]"
      and recs = "[replicate 120 CHR ''b'' @ ''\<newline>'']"]
  by (simp add: Handle_example Close_eq send_eq Let_def emit_def since_def)

section \<open>Extension by attributes and groups\<close>

lemma extends_refl [simp]: "extends w w"
  by (simp add: extends_def)












lemma Handle_loop_keeps:
  assumes "keeps_sinks handle"
  shows "Heap (snd (FanoutHandler_Handle_loop enabled handle hs r errs w)) = Heap w
       \<and> LevelVars (snd (FanoutHandler_Handle_loop enabled handle hs r errs w)) = LevelVars w"
proof (induction hs arbitrary: errs w)
  case Nil
  show ?case by simp
next
  case (Cons c hs)
  obtain res w1 where h: "handle c (Clone r) w = (res, w1)" by (cases "handle c (Clone r) w")
  have k: "Heap w1 = Heap w \<and> LevelVars w1 = LevelVars w"
    using assms h by (metis keeps_sinks_def snd_conv)
  show ?case
    using Cons.IH [of errs w] Cons.IH [of errs w1] Cons.IH [of "errs @ [the (recovered res)]" w1] h k
    by (auto simp: try_fn_def split: option.splits)
qed

lemma S1_Handle_keeps:
  "Heap (snd (SentinelOneHECHandler_Handle e h r w)) = Heap w
   \<and> LevelVars (snd (SentinelOneHECHandler_Handle e h r w)) = LevelVars w"
  by (simp add: SentinelOneHECHandler_Handle_def Let_def emit_def Buffer_Write_def
      split: sum.splits prod.splits option.splits)

lemma Handle_keeps:
  assumes "keeps_sinks childHandle"
  shows "Heap (snd (Handler_Handle childEnabled childHandle e a r w)) = Heap w
       \<and> LevelVars (snd (Handler_Handle childEnabled childHandle e a r w)) = LevelVars w"
proof (cases "Heap w ! a")
  case (S1HEC h)
  then show ?thesis using S1_Handle_keeps [of e h r w] by (simp add: Handler_Handle_def)
next
  case (Fanout h)
  then show ?thesis
    using Handle_loop_keeps [OF assms, of childEnabled "Handlers h" r "[]" w]
    by (auto simp: Handler_Handle_def FanoutHandler_Handle_def split: prod.splits)
qed (simp_all add: Handler_Handle_def ConsoleHandler_Handle_def FileHandler_Handle_def
      DiscardHandler_Handle_def Let_def emit_def split: option.splits)






lemma keeps_sinks_Handle:
  assumes "keeps_sinks childHandle"
  shows "keeps_sinks (\<lambda>c r w. case Handler_Handle childEnabled childHandle e c r w of
                                  (err, w') \<Rightarrow> (Returns err, w'))"
  unfolding keeps_sinks_def
  using Handle_keeps [OF assms, of childEnabled e] by (simp add: split_beta)





section \<open>The sinks of this package as children of a fan-out\<close>

text \<open>
  \<^verbatim>\<open>Handle\<close> of a sink of this package changes no handler object and no level variable,
  so it does not change which sinks are enabled: a fan-out over such sinks meets the
  hypothesis made on the children for \<^verbatim>\<open>FanoutHandler.Handle\<close> above.
\<close>

lemma Handler_Enabled_same_gate:
  assumes "Heap w' = Heap w" and "LevelVars w' = LevelVars w" and "child w' = child w"
  shows "Handler_Enabled child w' = Handler_Enabled child w"
proof (intro ext)
  fix a level
  show "Handler_Enabled child w' a level = Handler_Enabled child w a level"
    unfolding Handler_Enabled_def SentinelOneHECHandler_Enabled_def
      ConsoleHandler_Enabled_def FileHandler_Enabled_def LevelVar_Level_def assms ..
qed

lemma package_sinks_keep_enabled:
  assumes "keeps_sinks childHandle"
  shows "\<forall>c r w. Handler_Enabled (\<lambda>w c l. False)
           (snd (case Handler_Handle childEnabled childHandle e c r w of
                   (err, w') \<Rightarrow> (Returns err, w')))
         = Handler_Enabled (\<lambda>w c l. False) w"
proof (intro allI)
  fix c r w
  let ?w' = "snd (Handler_Handle childEnabled childHandle e c r w)"
  have eq: "snd (case Handler_Handle childEnabled childHandle e c r w of
               (err, w') \<Rightarrow> (Returns err, w')) = ?w'"
    by (cases "Handler_Handle childEnabled childHandle e c r w") simp
  have "Handler_Enabled (\<lambda>w c l. False) ?w' = Handler_Enabled (\<lambda>w c l. False) w"
    using Handle_keeps [OF assms, of childEnabled e c r w]
    by (intro Handler_Enabled_same_gate) simp_all
  then show "Handler_Enabled (\<lambda>w c l. False)
           (snd (case Handler_Handle childEnabled childHandle e c r w of
                   (err, w') \<Rightarrow> (Returns err, w')))
         = Handler_Enabled (\<lambda>w c l. False) w"
    unfolding eq .
qed

section \<open>The level gate shared between a sink and its clones\<close>

text \<open>What a clone made by a leaf sink holds: the level variables of the receiver.\<close>

lemma clone_gate:
  assumes "a < length (Heap w)" and "Handler_GetLevelVar w a = Some p"
    and "Handler_WithAttrs childAttrs a attrs w = (c, w1)
         \<or> Handler_WithGroup childGroup a name w = (c, w1)"
  shows "Handler_GetLevelVar w1 c = Some p \<and> Handler_GetLevelVar w1 a = Some p
       \<and> Handler_GetMaxLevelVar w1 c = Handler_GetMaxLevelVar w a
       \<and> Handler_GetMaxLevelVar w1 a = Handler_GetMaxLevelVar w a
       \<and> LevelVars w1 = LevelVars w"
proof (cases "Heap w ! a")
  case (S1HEC h)
  with assms show ?thesis
    by (auto simp: Handler_GetLevelVar_def Handler_GetMaxLevelVar_def Handler_WithAttrs_def
        Handler_WithGroup_def SentinelOneHECHandler_WithAttrs_def
        SentinelOneHECHandler_WithGroup_def SentinelOneHECHandler_clone_def
        SentinelOneHECHandler_GetLevelVar_def alloc_def Let_def nth_append
        split: if_splits)
next
  case (Console h)
  with assms show ?thesis
    by (auto simp: Handler_GetLevelVar_def Handler_GetMaxLevelVar_def Handler_WithAttrs_def
        Handler_WithGroup_def ConsoleHandler_WithAttrs_def ConsoleHandler_WithGroup_def
        ConsoleHandler_clone_def ConsoleHandler_GetLevelVar_def alloc_def Let_def nth_append
        split: if_splits)
next
  case (File h)
  with assms show ?thesis
    by (auto simp: Handler_GetLevelVar_def Handler_GetMaxLevelVar_def Handler_WithAttrs_def
        Handler_WithGroup_def FileHandler_WithAttrs_def FileHandler_WithGroup_def
        FileHandler_clone_def FileHandler_GetLevelVar_def alloc_def Let_def nth_append
        split: if_splits)
qed (use assms in \<open>simp_all add: Handler_GetLevelVar_def\<close>)

lemma Enabled_by_gate:
  assumes "Handler_GetLevelVar w a = Some p"
  shows "Handler_Enabled child w a level =
           (if Handler_GetMaxLevelVar w a = None then LevelVars w ! p \<le> level
            else level = LevelVars w ! p)"
  using assms
  by (cases "Heap w ! a")
     (auto simp: Handler_GetLevelVar_def Handler_GetMaxLevelVar_def Handler_Enabled_def
      SentinelOneHECHandler_Enabled_def ConsoleHandler_Enabled_def FileHandler_Enabled_def
      SentinelOneHECHandler_GetLevelVar_def ConsoleHandler_GetLevelVar_def
      FileHandler_GetLevelVar_def LevelVar_Level_def Let_def)

lemma LevelVar_Set_gate [simp]:
  "Handler_GetLevelVar (LevelVar_Set p v w) a = Handler_GetLevelVar w a"
  "Handler_GetMaxLevelVar (LevelVar_Set p v w) a = Handler_GetMaxLevelVar w a"
  by (simp_all add: Handler_GetLevelVar_def Handler_GetMaxLevelVar_def LevelVar_Set_def)

text \<open>
  C8. For a leaf sink with a level variable (forwarder, console, file) and a clone made by
  \<^verbatim>\<open>WithAttrs\<close> or \<^verbatim>\<open>WithGroup\<close>: \<^verbatim>\<open>GetLevelVar\<close> of the clone and of the original is the
  same variable, so a level set through either is set for both; after \<^verbatim>\<open>Set(v)\<close> on it,
  \<^verbatim>\<open>Enabled\<close> of the clone equals \<^verbatim>\<open>Enabled\<close> of the original at every level, and both
  follow the new value \<open>v\<close>: \<open>v \<le> level\<close> with no maximum configured (and \<open>level = v\<close> with
  one, see C1). No sink is rebuilt: the store after \<^verbatim>\<open>Set\<close> differs in the level variable
  only.
\<close>

theorem LevelVar_shared_with_clone:
  assumes "a < length (Heap w)" and "Handler_GetLevelVar w a = Some p"
    and "p < length (LevelVars w)"
    and "Handler_WithAttrs childAttrs a attrs w = (c, w1)
         \<or> Handler_WithGroup childGroup a name w = (c, w1)"
  shows "Handler_GetLevelVar w1 c = Some p \<and> Handler_GetLevelVar w1 a = Some p
       \<and> Handler_Enabled child (LevelVar_Set p v w1) c level
           = Handler_Enabled child (LevelVar_Set p v w1) a level
       \<and> Handler_Enabled child (LevelVar_Set p v w1) c level
           = (if Handler_GetMaxLevelVar w a = None then v \<le> level else level = v)"
proof -
  from clone_gate [OF assms(1,2,4)] have
    g: "Handler_GetLevelVar w1 c = Some p" "Handler_GetLevelVar w1 a = Some p"
       "Handler_GetMaxLevelVar w1 c = Handler_GetMaxLevelVar w a"
       "Handler_GetMaxLevelVar w1 a = Handler_GetMaxLevelVar w a"
       "LevelVars w1 = LevelVars w"
    by simp_all
  have v: "LevelVars (LevelVar_Set p v w1) ! p = v"
    using assms(3) g(5) by (simp add: LevelVar_Set_def)
  have c: "Handler_Enabled child (LevelVar_Set p v w1) c level
             = (if Handler_GetMaxLevelVar w a = None then v \<le> level else level = v)"
    using Enabled_by_gate [of "LevelVar_Set p v w1" c p child level] g v by simp
  have a: "Handler_Enabled child (LevelVar_Set p v w1) a level
             = (if Handler_GetMaxLevelVar w a = None then v \<le> level else level = v)"
    using Enabled_by_gate [of "LevelVar_Set p v w1" a p child level] g v by simp
  from g c a show ?thesis by simp
qed

theorem LevelVar_shared_with_clone_witness:
  "(let h = example_forwarder 100 True None None;
        w = \<lparr>LevelVars = [LevelInfo], Buffers = [[]],
             Heap = [S1HEC h, File (example_file 0 None)], Trace = []\<rparr>;
        ch = (\<lambda>w c l. False);
        w1 = snd (Handler_WithAttrs (\<lambda>c x w. (c, w)) 0 [(''k'', StringValue ''v'')] w);
        w2 = snd (Handler_WithGroup (\<lambda>c x w. (c, w)) 1 ''g'' w1)
    in Handler_GetLevelVar w 0 = Some 0 \<and> Handler_GetLevelVar w2 2 = Some 0
       \<and> Handler_GetLevelVar w2 3 = Some 0
       \<and> Handler_Enabled ch w2 2 LevelInfo \<and> Handler_Enabled ch w2 3 LevelInfo
       \<and> \<not> Handler_Enabled ch (LevelVar_Set 0 LevelError w2) 0 LevelInfo
       \<and> \<not> Handler_Enabled ch (LevelVar_Set 0 LevelError w2) 2 LevelInfo
       \<and> \<not> Handler_Enabled ch (LevelVar_Set 0 LevelError w2) 3 LevelInfo
       \<and> Handler_Enabled ch (LevelVar_Set 0 LevelError w2) 2 LevelError)"
  using LevelVar_shared_with_clone [where a = 0 and p = 0 and c = 2 and v = LevelError
      and level = LevelInfo and attrs = "[(''k'', StringValue ''v'')]"
      and childAttrs = "\<lambda>c x w. (c, w)"
      and w = "\<lparr>LevelVars = [LevelInfo], Buffers = [[]],
             Heap = [S1HEC (example_forwarder 100 True None None), File (example_file 0 None)],
             Trace = []\<rparr>"]
  by (simp add: Handler_WithAttrs_def Handler_WithGroup_def SentinelOneHECHandler_WithAttrs_def
      FileHandler_WithGroup_def SentinelOneHECHandler_clone_def FileHandler_clone_def
      alloc_def Let_def Handler_GetLevelVar_def SentinelOneHECHandler_GetLevelVar_def
      FileHandler_GetLevelVar_def Handler_Enabled_def SentinelOneHECHandler_Enabled_def
      FileHandler_Enabled_def LevelVar_Level_def LevelVar_Set_def LevelInfo_def LevelError_def)

end
